theory Spec2Isabelle
  imports Complex_Main
begin

section \<open>House price predictor: the two Streamlit pages\<close>

text \<open>
  The repository holds two Streamlit scripts, \<^verbatim>\<open>app.py\<close> and \<^verbatim>\<open>test.py\<close>.  Each one
  loads a pickled regression model (memoised with \<^verbatim>\<open>st.cache_resource\<close>), reads twelve
  widgets, turns them into a list of twelve integers and, when the button is pressed,
  calls \<^verbatim>\<open>model.predict\<close> on the one-row batch inside a \<^verbatim>\<open>try\<close>/\<^verbatim>\<open>except Exception\<close>.

  What is modelled: the widget values, the encoding, the cached load, the prediction
  block and the elements it shows.  Fixed page markup (headers, CSS, the summary table
  and the feature checklist of \<^verbatim>\<open>app.py\<close>) shows the widget values back without
  raising and is left out.
\<close>

subsection \<open>Python values: exceptions and number formatting\<close>

text \<open>
  Exceptions are values.  Every constructor is a class derived from \<^verbatim>\<open>Exception\<close>, which
  is what \<^verbatim>\<open>except Exception\<close> catches.  \<open>KeyError\<close> carries the missing key; the others
  carry their message.  The first five constructors are instances of exactly these classes.
  \<open>OtherException\<close> is an instance of any other class: it carries the names of its class and
  of the base classes of that class below \<^verbatim>\<open>Exception\<close>, most derived first, and the
  message.
\<close>

datatype py_exception =
    FileNotFoundError string
  | KeyError string
  | AttributeError string
  | IndexError string
  | ValueError string
  | OtherException "string list" string

text \<open>
  The test of \<^verbatim>\<open>except FileNotFoundError\<close>: the exception is an instance of that class or
  of a class derived from it.
\<close>

fun is_file_not_found :: "py_exception \<Rightarrow> bool" where
  "is_file_not_found (FileNotFoundError _) = True"
| "is_file_not_found (OtherException classes _) = (''FileNotFoundError'' \<in> set classes)"
| "is_file_not_found _ = False"

text \<open>
  The format specification \<^verbatim>\<open>,.2f\<close> of the f-string \<^verbatim>\<open>${prediction:,.2f}\<close>: the number
  is rounded to two decimals (ties to even), the integer part is grouped in threes by
  commas, and a negative number keeps its sign.  A finite float is a rational number, so
  numbers are \<^typ>\<open>rat\<close>.
\<close>

definition round_half_even :: "rat \<Rightarrow> int" where
  "round_half_even q =
     (let f = \<lfloor>q\<rfloor>; d = q - of_int f
      in if d < 1 / 2 then f
         else if 1 / 2 < d then f + 1
         else if even f then f else f + 1)"

definition digit_char :: "nat \<Rightarrow> char" where
  "digit_char d = ''0123456789'' ! d"

fun decimal :: "nat \<Rightarrow> string" where
  "decimal n = (if n < 10 then [digit_char n] else decimal (n div 10) @ [digit_char (n mod 10)])"

declare decimal.simps [simp del]

fun group_rev :: "string \<Rightarrow> string" where
  "group_rev (a # b # c # d # ds) = a # b # c # CHR '','' # group_rev (d # ds)"
| "group_rev ds = ds"

definition thousands :: "string \<Rightarrow> string" where
  "thousands ds = rev (group_rev (rev ds))"

definition format_comma_2f :: "rat \<Rightarrow> string" where
  "format_comma_2f x =
     (let n = nat (round_half_even (\<bar>x\<bar> * 100))
      in (if x < 0 then ''-'' else '''')
         @ thousands (decimal (n div 100))
         @ ''.''
         @ [digit_char (n mod 100 div 10), digit_char (n mod 10)])"

text \<open>
  The messages of the two exceptions the interpreter itself raises in the prediction
  block: the attribute lookup on \<^verbatim>\<open>None\<close>, and the index \<^verbatim>\<open>[0]\<close> into an empty result.
\<close>

definition none_has_no_predict :: string where
  "none_has_no_predict =
     [CHR 0x27] @ ''NoneType'' @ [CHR 0x27] @ '' object has no attribute ''
     @ [CHR 0x27] @ ''predict'' @ [CHR 0x27]"

definition index_0_out_of_bounds :: string where
  "index_0_out_of_bounds = ''index 0 is out of bounds for axis 0 with size 0''"

subsection \<open>Widgets, the model and what a run shows\<close>

text \<open>
  The values the twelve widgets return in one script run.  \<^verbatim>\<open>st.number_input\<close> with
  integer bounds returns an \<^verbatim>\<open>int\<close>; the select boxes return the chosen option, an
  \<^verbatim>\<open>int\<close> or a \<^verbatim>\<open>str\<close>.  \<^verbatim>\<open>test.py\<close> calls the last one \<^verbatim>\<open>furnishing\<close>.
\<close>

record house_inputs =
  area :: int
  bedrooms :: int
  bathrooms :: int
  stories :: int
  mainroad :: string
  guestroom :: string
  basement :: string
  hotwaterheating :: string
  airconditioning :: string
  parking :: int
  prefarea :: string
  furnishingstatus :: string

text \<open>
  The state of the widgets when nothing has been touched: \<^verbatim>\<open>value=7000\<close>, and the
  option at each select box's \<^verbatim>\<open>index\<close>.
\<close>

definition default_inputs :: house_inputs where
  "default_inputs =
     \<lparr>area = 7000, bedrooms = 4, bathrooms = 3, stories = 3,
      mainroad = ''Yes'', guestroom = ''Yes'', basement = ''Yes'',
      hotwaterheating = ''Yes'', airconditioning = ''Yes'',
      parking = 2, prefarea = ''Yes'', furnishingstatus = ''furnished''\<rparr>"

text \<open>The domains the widgets are declared with (the same in both files).\<close>

definition yes_no :: "string \<Rightarrow> bool" where
  "yes_no s = (s = ''No'' \<or> s = ''Yes'')"

definition valid_inputs :: "house_inputs \<Rightarrow> bool" where
  "valid_inputs h =
     (1000 \<le> area h \<and> area h \<le> 20000
      \<and> 1 \<le> bedrooms h \<and> bedrooms h \<le> 8
      \<and> 1 \<le> bathrooms h \<and> bathrooms h \<le> 6
      \<and> 1 \<le> stories h \<and> stories h \<le> 4
      \<and> yes_no (mainroad h) \<and> yes_no (guestroom h) \<and> yes_no (basement h)
      \<and> yes_no (hotwaterheating h) \<and> yes_no (airconditioning h)
      \<and> 0 \<le> parking h \<and> parking h \<le> 3
      \<and> yes_no (prefarea h)
      \<and> (furnishingstatus h = ''unfurnished'' \<or> furnishingstatus h = ''semi-furnished''
         \<or> furnishingstatus h = ''furnished''))"

text \<open>
  The unpickled object is known by its \<^verbatim>\<open>predict\<close> method only: it takes a batch (a list
  of rows) and returns a sequence of numbers or raises.  \<^verbatim>\<open>joblib.load('Housing.pkl')\<close>
  returns such an object or raises; its outcome at the moment of a run is an input of
  the run.
\<close>

type_synonym model = "int list list \<Rightarrow> py_exception + rat list"

type_synonym load_outcome = "py_exception + model"

text \<open>
  What a run does that can be observed:
  \<^item> \<open>StError ModelFileNotFound\<close> is \<^verbatim>\<open>st.error("Model file 'Housing.pkl' not found.")\<close>;
  \<^item> \<open>StError (ErrorMakingPrediction e)\<close> is
    \<^verbatim>\<open>st.error(f"Error making prediction: {str(e)}")\<close>;
  \<^item> \<open>PredictionBox s\<close> is the \<^verbatim>\<open>st.markdown\<close> of the result template, \<open>s\<close> being the text
    the f-string puts at \<^verbatim>\<open>${prediction:,.2f}\<close>;
  \<^item> \<open>ModelPredict rows\<close> records that the model's \<^verbatim>\<open>predict\<close> was entered with \<open>rows\<close>;
  \<^item> \<open>StException e\<close> is the box in which Streamlit's script runner shows an exception
    that left the script (see \<open>page\<close> below); the script itself never shows one.
\<close>

datatype message = ModelFileNotFound | ErrorMakingPrediction py_exception

datatype effect =
    StError message
  | PredictionBox string
  | ModelPredict "int list list"
  | StException py_exception

text \<open>
  \<^verbatim>\<open>st.cache_resource\<close> keeps, for the process, the value the decorated function returned
  together with the elements it showed, and replays them on later calls.  A call that
  raises stores nothing.
\<close>

type_synonym cache = "(model option \<times> effect list) option"

record run_result =
  new_cache :: cache
  shown :: "effect list"
  uncaught :: "py_exception option"

subsection \<open>\<^verbatim>\<open>app.py\<close>\<close>

definition app_load_model_body :: "load_outcome \<Rightarrow> py_exception + model option \<times> effect list" where
  "app_load_model_body joblib_load =
     (case joblib_load of
        Inr model \<Rightarrow> Inr (Some model, [])
      | Inl e \<Rightarrow>
          if is_file_not_found e then Inr (None, [StError ModelFileNotFound]) else Inl e)"

definition app_load_model :: "cache \<Rightarrow> load_outcome \<Rightarrow> py_exception + model option \<times> effect list \<times> cache" where
  "app_load_model c joblib_load =
     (case c of
        Some (model, msgs) \<Rightarrow> Inr (model, msgs, c)
      | None \<Rightarrow>
         (case app_load_model_body joblib_load of
            Inl e \<Rightarrow> Inl e
          | Inr (model, msgs) \<Rightarrow> Inr (model, msgs, Some (model, msgs))))"

definition app_furnishing_map :: "(string \<times> int) list" where
  "app_furnishing_map = [(''unfurnished'', 0), (''semi-furnished'', 1), (''furnished'', 2)]"

definition app_input_features :: "house_inputs \<Rightarrow> py_exception + int list" where
  "app_input_features h =
     (let mainroad_val = (if mainroad h = ''Yes'' then 1 else 0);
          guestroom_val = (if guestroom h = ''Yes'' then 1 else 0);
          basement_val = (if basement h = ''Yes'' then 1 else 0);
          hotwaterheating_val = (if hotwaterheating h = ''Yes'' then 1 else 0);
          airconditioning_val = (if airconditioning h = ''Yes'' then 1 else 0);
          prefarea_val = (if prefarea h = ''Yes'' then 1 else 0)
      in case map_of app_furnishing_map (furnishingstatus h) of
           None \<Rightarrow> Inl (KeyError (furnishingstatus h))
         | Some furnishing_val \<Rightarrow>
             Inr [area h, bedrooms h, bathrooms h, stories h, mainroad_val,
                  guestroom_val, basement_val, hotwaterheating_val,
                  airconditioning_val, parking h, prefarea_val, furnishing_val])"

text \<open>
  The body of \<^verbatim>\<open>if st.button(...)\<close>: \<^verbatim>\<open>model.predict([input_features])[0]\<close>, the
  formatted result, and the handler of \<^verbatim>\<open>except Exception\<close>.  With \<^verbatim>\<open>model = None\<close> the
  attribute lookup raises before any call.
\<close>

definition app_predict :: "model option \<Rightarrow> int list \<Rightarrow> effect list" where
  "app_predict model input_features =
     (case model of
        None \<Rightarrow>
          [StError (ErrorMakingPrediction (AttributeError none_has_no_predict))]
      | Some m \<Rightarrow>
          ModelPredict [input_features] #
          (case m [input_features] of
             Inl e \<Rightarrow> [StError (ErrorMakingPrediction e)]
           | Inr [] \<Rightarrow> [StError (ErrorMakingPrediction (IndexError index_0_out_of_bounds))]
           | Inr (prediction # _) \<Rightarrow> [PredictionBox (''$'' @ format_comma_2f prediction)]))"

text \<open>
  One run of \<^verbatim>\<open>main()\<close>.  The encoding stands outside the button's branch, so it runs
  in every run of this page.
\<close>

definition app_main :: "cache \<Rightarrow> load_outcome \<Rightarrow> house_inputs \<Rightarrow> bool \<Rightarrow> run_result" where
  "app_main c joblib_load h button =
     (case app_load_model c joblib_load of
        Inl e \<Rightarrow> \<lparr>new_cache = c, shown = [], uncaught = Some e\<rparr>
      | Inr (model, msgs, c') \<Rightarrow>
         (case app_input_features h of
            Inl e \<Rightarrow> \<lparr>new_cache = c', shown = msgs, uncaught = Some e\<rparr>
          | Inr input_features \<Rightarrow>
              if button
              then \<lparr>new_cache = c', shown = msgs @ app_predict model input_features,
                    uncaught = None\<rparr>
              else \<lparr>new_cache = c', shown = msgs, uncaught = None\<rparr>))"

subsection \<open>\<^verbatim>\<open>test.py\<close>\<close>

definition test_load_model_body :: "load_outcome \<Rightarrow> py_exception + model option \<times> effect list" where
  "test_load_model_body joblib_load =
     (case joblib_load of
        Inr model \<Rightarrow> Inr (Some model, [])
      | Inl e \<Rightarrow>
          if is_file_not_found e then Inr (None, [StError ModelFileNotFound]) else Inl e)"

definition test_load_model :: "cache \<Rightarrow> load_outcome \<Rightarrow> py_exception + model option \<times> effect list \<times> cache" where
  "test_load_model c joblib_load =
     (case c of
        Some (model, msgs) \<Rightarrow> Inr (model, msgs, c)
      | None \<Rightarrow>
         (case test_load_model_body joblib_load of
            Inl e \<Rightarrow> Inl e
          | Inr (model, msgs) \<Rightarrow> Inr (model, msgs, Some (model, msgs))))"

definition test_furnishing_map :: "(string \<times> int) list" where
  "test_furnishing_map = [(''unfurnished'', 0), (''semi-furnished'', 1), (''furnished'', 2)]"

definition test_input_features :: "house_inputs \<Rightarrow> py_exception + int list" where
  "test_input_features h =
     (let mainroad_val = (if mainroad h = ''Yes'' then 1 else 0);
          guestroom_val = (if guestroom h = ''Yes'' then 1 else 0);
          basement_val = (if basement h = ''Yes'' then 1 else 0);
          hotwaterheating_val = (if hotwaterheating h = ''Yes'' then 1 else 0);
          airconditioning_val = (if airconditioning h = ''Yes'' then 1 else 0);
          prefarea_val = (if prefarea h = ''Yes'' then 1 else 0)
      in case map_of test_furnishing_map (furnishingstatus h) of
           None \<Rightarrow> Inl (KeyError (furnishingstatus h))
         | Some furnishing_val \<Rightarrow>
             Inr [area h, bedrooms h, bathrooms h, stories h, mainroad_val,
                  guestroom_val, basement_val, hotwaterheating_val,
                  airconditioning_val, parking h, prefarea_val, furnishing_val])"

definition test_predict :: "model option \<Rightarrow> int list \<Rightarrow> effect list" where
  "test_predict model input_features =
     (case model of
        None \<Rightarrow>
          [StError (ErrorMakingPrediction (AttributeError none_has_no_predict))]
      | Some m \<Rightarrow>
          ModelPredict [input_features] #
          (case m [input_features] of
             Inl e \<Rightarrow> [StError (ErrorMakingPrediction e)]
           | Inr [] \<Rightarrow> [StError (ErrorMakingPrediction (IndexError index_0_out_of_bounds))]
           | Inr (prediction # _) \<Rightarrow> [PredictionBox (''$'' @ format_comma_2f prediction)]))"

text \<open>
  One run of \<^verbatim>\<open>main()\<close>.  Here the encoding is inside the button's branch: a run
  without a press does not encode.
\<close>

definition test_main :: "cache \<Rightarrow> load_outcome \<Rightarrow> house_inputs \<Rightarrow> bool \<Rightarrow> run_result" where
  "test_main c joblib_load h button =
     (case test_load_model c joblib_load of
        Inl e \<Rightarrow> \<lparr>new_cache = c, shown = [], uncaught = Some e\<rparr>
      | Inr (model, msgs, c') \<Rightarrow>
          if button
          then (case test_input_features h of
                  Inl e \<Rightarrow> \<lparr>new_cache = c', shown = msgs, uncaught = Some e\<rparr>
                | Inr input_features \<Rightarrow>
                    \<lparr>new_cache = c', shown = msgs @ test_predict model input_features,
                     uncaught = None\<rparr>)
          else \<lparr>new_cache = c', shown = msgs, uncaught = None\<rparr>)"

subsection \<open>A process: one run per user interaction\<close>


type_synonym interaction = "load_outcome \<times> house_inputs \<times> bool"

fun session :: "(cache \<Rightarrow> load_outcome \<Rightarrow> house_inputs \<Rightarrow> bool \<Rightarrow> run_result)
    \<Rightarrow> cache \<Rightarrow> interaction list \<Rightarrow> run_result list" where
  "session main c [] = []"
| "session main c ((joblib_load, h, button) # rest) =
     (let r = main c joblib_load h button in r # session main (new_cache r) rest)"

subsection \<open>Auxiliary notions for the properties\<close>

text \<open>
  Reading an amount back from its text.  These functions do not mention the formatter:
  \<open>amount_text\<close> assembles a text from a sign, the groups of digits of the integer part
  and the two decimals; \<open>well_grouped\<close> says that the groups are digits, the first of one
  to three, every other of exactly three, with no leading zero; \<open>amount_cents\<close> is the
  number of hundredths that the digits denote (\<open>digit_value\<close> is the code of a digit less
  that of the digit zero).
\<close>

definition is_digit :: "char \<Rightarrow> bool" where
  "is_digit c = (c \<in> set ''0123456789'')"

definition digit_value :: "char \<Rightarrow> nat" where
  "digit_value c = of_char c - 48"

definition read_nat :: "string \<Rightarrow> nat" where
  "read_nat ds = foldl (\<lambda>a c. 10 * a + digit_value c) 0 ds"

fun join_commas :: "string list \<Rightarrow> string" where
  "join_commas [] = []"
| "join_commas [g] = g"
| "join_commas (g # gs) = g @ '','' @ join_commas gs"

definition amount_text :: "bool \<Rightarrow> string list \<Rightarrow> char \<Rightarrow> char \<Rightarrow> string" where
  "amount_text negative groups d1 d2 =
     (if negative then ''-'' else '''') @ join_commas groups @ ''.'' @ [d1, d2]"

definition amount_cents :: "string list \<Rightarrow> char \<Rightarrow> char \<Rightarrow> nat" where
  "amount_cents groups d1 d2 = read_nat (concat groups @ [d1, d2])"

definition well_grouped :: "string list \<Rightarrow> bool" where
  "well_grouped groups =
     (groups \<noteq> [] \<and> list_all is_digit (concat groups)
      \<and> 1 \<le> length (hd groups) \<and> length (hd groups) \<le> 3
      \<and> list_all (\<lambda>g. length g = 3) (tl groups)
      \<and> (groups = [''0''] \<or> 0 < digit_value (hd (hd groups))))"


fun missing_file :: "load_outcome \<Rightarrow> bool" where
  "missing_file (Inl e) = is_file_not_found e"
| "missing_file (Inr _) = False"


definition cache_reachable :: "cache \<Rightarrow> bool" where
  "cache_reachable c =
     (case c of
        None \<Rightarrow> True
      | Some (None, msgs) \<Rightarrow> msgs = [StError ModelFileNotFound]
      | Some (Some m, msgs) \<Rightarrow> msgs = [])"


text \<open>
  Two example models.  A stub whose \<^verbatim>\<open>predict\<close> returns the one value \<open>c\<close> whatever the
  rows; and a model that was trained on thirteen features: given rows of another length
  its \<^verbatim>\<open>predict\<close> raises \<^verbatim>\<open>ValueError\<close>.
\<close>

definition stub_model :: "rat \<Rightarrow> model" where
  "stub_model c rows = Inr [c]"

definition expects_13_features :: model where
  "expects_13_features rows =
     (if list_all (\<lambda>row. length row = 13) rows then Inr (map (\<lambda>row. 0) rows)
      else Inl (ValueError ''X has 12 features, but the model is expecting 13''))"

section \<open>Properties\<close>

subsection \<open>Evaluating the number format\<close>

lemma decimal_small: "n < 10 \<Longrightarrow> decimal n = [digit_char n]"
  by (simp add: decimal.simps)

lemma decimal_big: "10 \<le> n \<Longrightarrow> decimal n = decimal (n div 10) @ [digit_char (n mod 10)]"
  by (subst decimal.simps) simp

lemmas format_eval =
  format_comma_2f_def round_half_even_def decimal_small decimal_big thousands_def
  digit_char_def Let_def

lemma round_half_even_error:
  "\<bar>of_int (round_half_even q) - q\<bar> \<le> 1 / 2
   \<and> (even (round_half_even q) \<or> \<bar>of_int (round_half_even q) - q\<bar> < 1 / 2)"
proof -
  define f where "f = \<lfloor>q\<rfloor>"
  define d where "d = q - of_int f"
  have d0: "0 \<le> d" and d1: "d < 1"
    unfolding d_def f_def by linarith+
  have q: "q = of_int f + d"
    by (simp add: d_def)
  have r: "round_half_even q =
      (if d < 1 / 2 then f else if 1 / 2 < d then f + 1 else if even f then f else f + 1)"
    by (simp add: round_half_even_def Let_def f_def d_def)
  consider "d < 1 / 2" | "1 / 2 < d" | "d = 1 / 2" "even f" | "d = 1 / 2" "odd f"
    by fastforce
  then show ?thesis
  proof cases
    case 1
    then have "round_half_even q = f" by (simp add: r)
    moreover have "rat_of_int f - q = - d" by (simp add: d_def)
    ultimately show ?thesis using 1 d0 by (simp add: abs_if)
  next
    case 2
    then have "round_half_even q = f + 1" by (simp add: r)
    moreover have "rat_of_int (f + 1) - q = 1 - d" by (simp add: d_def)
    ultimately show ?thesis using 2 d1 by (simp add: abs_if)
  next
    case 3
    then have "round_half_even q = f" by (simp add: r)
    moreover have "rat_of_int f - q = - d" by (simp add: d_def)
    ultimately show ?thesis using 3 by (simp add: abs_if)
  next
    case 4
    then have "round_half_even q = f + 1" by (simp add: r)
    moreover have "rat_of_int (f + 1) - q = 1 - d" by (simp add: d_def)
    ultimately show ?thesis using 4 by (simp add: abs_if)
  qed
qed

lemma round_half_even_nonneg: "0 \<le> q \<Longrightarrow> 0 \<le> round_half_even q"
  by (auto simp add: round_half_even_def Let_def)

lemma digit_cases:
  assumes "d < 10"
  shows "d \<in> {0, 1, 2, 3, 4, 5, 6, 7, 8, 9::nat}"
  using assms by auto

lemma digit_char_is_digit: "d < 10 \<Longrightarrow> is_digit (digit_char d)"
  using digit_cases [of d] by (auto simp add: is_digit_def digit_char_def)

lemma digit_value_digit_char: "d < 10 \<Longrightarrow> digit_value (digit_char d) = d"
  using digit_cases [of d] by (auto simp add: digit_value_def digit_char_def)

lemma read_nat_snoc: "read_nat (ds @ [c]) = 10 * read_nat ds + digit_value c"
  by (simp add: read_nat_def)

lemma decimal_digits: "list_all is_digit (decimal n)"
proof (induction n rule: decimal.induct)
  case (1 n)
  show ?case
  proof (cases "n < 10")
    case True
    then show ?thesis by (simp add: decimal_small digit_char_is_digit)
  next
    case False
    with 1 show ?thesis by (simp add: decimal_big digit_char_is_digit)
  qed
qed

lemma read_nat_decimal: "read_nat (decimal n) = n"
proof (induction n rule: decimal.induct)
  case (1 n)
  show ?case
  proof (cases "n < 10")
    case True
    then show ?thesis
      using read_nat_snoc [of "[]" "digit_char n"]
      by (simp add: decimal_small digit_value_digit_char read_nat_def)
  next
    case False
    with 1 show ?thesis by (simp add: decimal_big read_nat_snoc digit_value_digit_char)
  qed
qed

lemma decimal_nonempty: "decimal n \<noteq> []"
  by (subst decimal.simps) simp

lemma decimal_zero: "decimal 0 = ''0''"
  by (simp add: decimal_small digit_char_def)

lemma hd_decimal: "0 < n \<Longrightarrow> 0 < digit_value (hd (decimal n))"
proof (induction n rule: decimal.induct)
  case (1 n)
  show ?case
  proof (cases "n < 10")
    case True
    with 1(2) show ?thesis by (simp add: decimal_small digit_value_digit_char)
  next
    case False
    then have "0 < n div 10" by simp
    with 1(1) False have "0 < digit_value (hd (decimal (n div 10)))" by simp
    then show ?thesis
      using False decimal_nonempty [of "n div 10"] by (simp add: decimal_big)
  qed
qed

lemma join_commas_snoc: "gs \<noteq> [] \<Longrightarrow> join_commas (gs @ [g]) = join_commas gs @ '','' @ g"
  by (induction gs rule: join_commas.induct) simp_all

lemma group_rev_short: "length r \<le> 3 \<Longrightarrow> group_rev r = r"
  by (cases r rule: group_rev.cases) simp_all

lemma thousands_short: "length ds \<le> 3 \<Longrightarrow> thousands ds = ds"
  by (simp add: thousands_def group_rev_short)

lemma thousands_snoc3:
  assumes "ds \<noteq> []"
  shows "thousands (ds @ [x, y, z]) = thousands ds @ '','' @ [x, y, z]"
proof -
  from assms obtain d r where r: "rev ds = d # r"
    by (cases "rev ds") simp_all
  show ?thesis
    by (simp add: thousands_def r)
qed

lemma last_three:
  assumes "3 \<le> length ds"
  shows "\<exists>ds' x y z. ds = ds' @ [x, y, z]"
proof -
  from assms obtain a z where a: "ds = a @ [z]"
    by (cases ds rule: rev_cases) simp_all
  with assms obtain b y where b: "a = b @ [y]"
    by (cases a rule: rev_cases) simp_all
  with a assms obtain c x where c: "b = c @ [x]"
    by (cases b rule: rev_cases) simp_all
  show ?thesis
    by (simp add: a b c)
qed

lemma thousands_groups:
  "ds \<noteq> [] \<Longrightarrow>
   \<exists>groups. thousands ds = join_commas groups \<and> concat groups = ds \<and> groups \<noteq> []
     \<and> 1 \<le> length (hd groups) \<and> length (hd groups) \<le> 3
     \<and> list_all (\<lambda>g. length g = 3) (tl groups)
     \<and> hd (hd groups) = hd ds \<and> (length ds \<le> 3 \<longrightarrow> groups = [ds])"
proof (induction "length ds" arbitrary: ds rule: less_induct)
  case less
  show ?case
  proof (cases "length ds \<le> 3")
    case True
    with less.prems show ?thesis
      by (intro exI [of _ "[ds]"]) (simp add: thousands_short Suc_le_eq)
  next
    case False
    then have "3 \<le> length ds" by simp
    then obtain ds' x y z where ds: "ds = ds' @ [x, y, z]"
      using last_three by blast
    with False have ne: "ds' \<noteq> []" by auto
    from ds have "length ds' < length ds" by simp
    from less.hyps [OF this ne] obtain groups where g:
      "thousands ds' = join_commas groups" "concat groups = ds'" "groups \<noteq> []"
      "1 \<le> length (hd groups)" "length (hd groups) \<le> 3"
      "list_all (\<lambda>g. length g = 3) (tl groups)" "hd (hd groups) = hd ds'"
      by blast
    show ?thesis
    proof (intro exI [of _ "groups @ [[x, y, z]]"] conjI)
      show "thousands ds = join_commas (groups @ [[x, y, z]])"
        using g(1,3) ne by (simp add: ds thousands_snoc3 join_commas_snoc)
      show "concat (groups @ [[x, y, z]]) = ds"
        using g(2) by (simp add: ds)
      show "hd (hd (groups @ [[x, y, z]])) = hd ds"
        using g(3,7) ne by (simp add: ds)
      show "length ds \<le> 3 \<longrightarrow> groups @ [[x, y, z]] = [ds]"
        using False by simp
    qed (use g in simp_all)
  qed
qed

lemma cents_split: "(n div 100 * 10 + n mod 100 div 10) * 10 + n mod 10 = (n::nat)"
proof -
  define p where "p = n div 100"
  define m where "m = n mod 100"
  define r where "r = m div 10"
  define u where "u = n mod 10"
  have "m mod 10 = u"
    by (simp add: m_def u_def mod_mod_cancel)
  then have b: "10 * r + u = m"
    using mult_div_mod_eq [of 10 m] by (simp add: r_def)
  have c: "100 * p + m = n"
    unfolding p_def m_def by (rule mult_div_mod_eq)
  have "(p * 10 + r) * 10 + u = 100 * p + (10 * r + u)"
    by (simp add: algebra_simps)
  also have "\<dots> = 100 * p + m"
    by (simp only: b)
  also have "\<dots> = n"
    by (rule c)
  finally have "(p * 10 + r) * 10 + u = n" .
  then show ?thesis
    by (simp only: p_def r_def m_def u_def)
qed

lemma round_half_even_near:
  assumes "\<bar>of_int k - q\<bar> < 1 / 2"
  shows "round_half_even q = k"
proof -
  from round_half_even_error [of q]
  have "\<bar>of_int (round_half_even q) - q\<bar> \<le> 1 / 2" by (rule conjunct1)
  with assms have "\<bar>rat_of_int (round_half_even q) - of_int k\<bar> < 1" by linarith
  then have "\<bar>rat_of_int (round_half_even q - k)\<bar> < 1" by simp
  then have "\<bar>round_half_even q - k\<bar> < 1"
    by (metis of_int_abs of_int_less_1_iff)
  then show ?thesis by linarith
qed

lemma round_half_even_tie:
  assumes "q = of_int k + 1 / 2"
  shows "round_half_even q = (if even k then k else k + 1)"
proof -
  have "\<lfloor>q\<rfloor> = k" unfolding assms by linarith
  then show ?thesis by (simp add: round_half_even_def Let_def assms)
qed

text \<open>
  What the formatter writes, read back: the sign, well-formed groups of digits joined by
  commas, a point and two digits; the amount they denote is the nearest number of
  hundredths, and on a tie the even one.
\<close>

lemma format_comma_2f_reads_back:
  "\<exists>groups d1 d2.
     format_comma_2f y = amount_text (y < 0) groups d1 d2
     \<and> well_grouped groups \<and> is_digit d1 \<and> is_digit d2
     \<and> \<bar>of_nat (amount_cents groups d1 d2) - \<bar>y\<bar> * 100\<bar> \<le> 1 / 2
     \<and> (even (amount_cents groups d1 d2)
          \<or> \<bar>of_nat (amount_cents groups d1 d2) - \<bar>y\<bar> * 100\<bar> < 1 / 2)"
proof -
  define n where "n = nat (round_half_even (\<bar>y\<bar> * 100))"
  define d1 where "d1 = digit_char (n mod 100 div 10)"
  define d2 where "d2 = digit_char (n mod 10)"
  have "0 \<le> round_half_even (\<bar>y\<bar> * 100)"
    by (rule round_half_even_nonneg) simp
  then have n: "int n = round_half_even (\<bar>y\<bar> * 100)"
    by (simp add: n_def)
  have of_n: "(of_nat n :: rat) = of_int (round_half_even (\<bar>y\<bar> * 100))"
    using n by (metis of_int_of_nat_eq)
  have ev: "even n \<longleftrightarrow> even (round_half_even (\<bar>y\<bar> * 100))"
    using n by (metis even_of_nat_iff)
  from thousands_groups [OF decimal_nonempty [of "n div 100"]] obtain groups where gg:
    "thousands (decimal (n div 100)) = join_commas groups
     \<and> concat groups = decimal (n div 100) \<and> groups \<noteq> []
     \<and> 1 \<le> length (hd groups) \<and> length (hd groups) \<le> 3
     \<and> list_all (\<lambda>g. length g = 3) (tl groups)
     \<and> hd (hd groups) = hd (decimal (n div 100))
     \<and> (length (decimal (n div 100)) \<le> 3 \<longrightarrow> groups = [decimal (n div 100)])" ..
  then have g:
    "thousands (decimal (n div 100)) = join_commas groups"
    "concat groups = decimal (n div 100)" "groups \<noteq> []"
    "1 \<le> length (hd groups)" "length (hd groups) \<le> 3"
    "list_all (\<lambda>g. length g = 3) (tl groups)"
    "hd (hd groups) = hd (decimal (n div 100))"
    "length (decimal (n div 100)) \<le> 3 \<longrightarrow> groups = [decimal (n div 100)]"
    by simp_all
  have shape: "format_comma_2f y = amount_text (y < 0) groups d1 d2"
    by (simp add: format_comma_2f_def amount_text_def Let_def n_def [symmetric] g(1)
        d1_def d2_def)
  have dig1: "is_digit d1" and dig2: "is_digit d2"
    by (simp_all add: d1_def d2_def digit_char_is_digit)
  have "read_nat (concat groups @ [d1, d2]) = (n div 100 * 10 + n mod 100 div 10) * 10 + n mod 10"
    using read_nat_snoc [of "decimal (n div 100) @ [d1]" d2]
      read_nat_snoc [of "decimal (n div 100)" d1]
    by (simp add: g(2) read_nat_decimal d1_def d2_def digit_value_digit_char)
  then have cents: "amount_cents groups d1 d2 = n"
    by (simp only: amount_cents_def cents_split)
  have lead: "groups = [''0''] \<or> 0 < digit_value (hd (hd groups))"
  proof (cases "n div 100 = 0")
    case True
    then show ?thesis using g(8) by (simp add: decimal_zero)
  next
    case False
    then show ?thesis using hd_decimal [of "n div 100"] by (simp add: g(7))
  qed
  have grouped: "well_grouped groups"
    unfolding well_grouped_def
    using g(3,4,5,6) lead decimal_digits [of "n div 100"] by (simp add: g(2))
  from round_half_even_error [of "\<bar>y\<bar> * 100"]
  have r1: "\<bar>rat_of_int (round_half_even (\<bar>y\<bar> * 100)) - \<bar>y\<bar> * 100\<bar> \<le> 1 / 2"
    and r2: "even (round_half_even (\<bar>y\<bar> * 100))
      \<or> \<bar>rat_of_int (round_half_even (\<bar>y\<bar> * 100)) - \<bar>y\<bar> * 100\<bar> < 1 / 2"
    by (rule conjunct1, rule conjunct2)
  have e1: "\<bar>of_nat (amount_cents groups d1 d2) - \<bar>y\<bar> * 100\<bar> \<le> 1 / 2"
    unfolding cents of_n by (rule r1)
  have e2: "even (amount_cents groups d1 d2)
      \<or> \<bar>of_nat (amount_cents groups d1 d2) - \<bar>y\<bar> * 100\<bar> < 1 / 2"
    unfolding cents of_n ev by (rule r2)
  show ?thesis
    by (rule exI [of _ groups], rule exI [of _ d1], rule exI [of _ d2], intro conjI)
      (fact shape grouped dig1 dig2 e1 e2)+
qed

text \<open>The formatter on some amounts, among them two ties and a negative amount.\<close>

lemma format_4500000: "format_comma_2f 4500000 = ''4,500,000.00''"
  by (simp add: format_eval)

lemma format_1234567_89: "format_comma_2f (123456789 / 100) = ''1,234,567.89''"
  by (simp add: format_eval)

lemma format_negative: "format_comma_2f (- 2469 / 2) = ''-1,234.50''"
  by (simp add: format_eval)

lemma format_tie_down: "format_comma_2f (1 / 8) = ''0.12''"
proof -
  have "round_half_even (25 / 2) = 12"
    using round_half_even_tie [of "25 / 2" 12] by simp
  then show ?thesis
    by (simp add: format_comma_2f_def decimal_small thousands_def digit_char_def Let_def)
qed


lemma format_small_negative: "format_comma_2f (- 1 / 1000) = ''-0.00''"
proof -
  have "round_half_even (1 / 10) = 0"
    using round_half_even_near [of 0 "1 / 10"] by simp
  then show ?thesis
    by (simp add: format_comma_2f_def decimal_small thousands_def digit_char_def Let_def)
qed

subsection \<open>The encoding\<close>

lemma furnishing_lookup_app:
  "map_of app_furnishing_map s =
     (if s = ''unfurnished'' then Some 0
      else if s = ''semi-furnished'' then Some 1
      else if s = ''furnished'' then Some 2 else None)"
  by (simp add: app_furnishing_map_def)

lemma furnishing_lookup_test:
  "map_of test_furnishing_map s =
     (if s = ''unfurnished'' then Some 0
      else if s = ''semi-furnished'' then Some 1
      else if s = ''furnished'' then Some 2 else None)"
  by (simp add: test_furnishing_map_def)

lemma app_input_features_valid:
  assumes "valid_inputs h"
  shows "app_input_features h =
     Inr [area h, bedrooms h, bathrooms h, stories h,
          if mainroad h = ''Yes'' then 1 else 0,
          if guestroom h = ''Yes'' then 1 else 0,
          if basement h = ''Yes'' then 1 else 0,
          if hotwaterheating h = ''Yes'' then 1 else 0,
          if airconditioning h = ''Yes'' then 1 else 0,
          parking h,
          if prefarea h = ''Yes'' then 1 else 0,
          if furnishingstatus h = ''unfurnished'' then 0
          else if furnishingstatus h = ''semi-furnished'' then 1 else 2]"
proof -
  from assms have "furnishingstatus h = ''unfurnished'' \<or> furnishingstatus h = ''semi-furnished''
      \<or> furnishingstatus h = ''furnished''"
    by (simp add: valid_inputs_def)
  then show ?thesis
    by (auto simp add: app_input_features_def furnishing_lookup_app Let_def)
qed

lemma test_input_features_valid:
  assumes "valid_inputs h"
  shows "test_input_features h =
     Inr [area h, bedrooms h, bathrooms h, stories h,
          if mainroad h = ''Yes'' then 1 else 0,
          if guestroom h = ''Yes'' then 1 else 0,
          if basement h = ''Yes'' then 1 else 0,
          if hotwaterheating h = ''Yes'' then 1 else 0,
          if airconditioning h = ''Yes'' then 1 else 0,
          parking h,
          if prefarea h = ''Yes'' then 1 else 0,
          if furnishingstatus h = ''unfurnished'' then 0
          else if furnishingstatus h = ''semi-furnished'' then 1 else 2]"
proof -
  from assms have "furnishingstatus h = ''unfurnished'' \<or> furnishingstatus h = ''semi-furnished''
      \<or> furnishingstatus h = ''furnished''"
    by (simp add: valid_inputs_def)
  then show ?thesis
    by (auto simp add: test_input_features_def furnishing_lookup_test Let_def)
qed

lemma valid_default_inputs: "valid_inputs default_inputs"
  by (simp add: valid_inputs_def default_inputs_def yes_no_def)

lemma valid_area_low: "valid_inputs (default_inputs\<lparr>area := 1000\<rparr>)"
  by (simp add: valid_inputs_def default_inputs_def yes_no_def)

lemma valid_area_high: "valid_inputs (default_inputs\<lparr>area := 20000\<rparr>)"
  by (simp add: valid_inputs_def default_inputs_def yes_no_def)

text \<open>
  Claim C1.  For every input within the widgets' domains, the encoding of either page
  succeeds and is a list of exactly twelve numbers in the order area, bedrooms,
  bathrooms, stories, mainroad, guestroom, basement, hotwaterheating, airconditioning,
  parking, prefarea, furnishingstatus; the yes/no fields as 0/1 and the furnishing status
  by its ordinal.  The witness takes the two ends of the area's domain, 1000 and 20000.
\<close>

theorem encode_twelve_in_order:
  assumes "valid_inputs h"
  shows "\<exists>v w. app_input_features h = Inr v \<and> test_input_features h = Inr w
    \<and> length v = 12 \<and> length w = 12
    \<and> [v ! 0, v ! 1, v ! 2, v ! 3] = [area h, bedrooms h, bathrooms h, stories h]
    \<and> [w ! 0, w ! 1, w ! 2, w ! 3] = [area h, bedrooms h, bathrooms h, stories h]
    \<and> v ! 4 = (if mainroad h = ''Yes'' then 1 else 0) \<and> w ! 4 = v ! 4
    \<and> v ! 5 = (if guestroom h = ''Yes'' then 1 else 0) \<and> w ! 5 = v ! 5
    \<and> v ! 6 = (if basement h = ''Yes'' then 1 else 0) \<and> w ! 6 = v ! 6
    \<and> v ! 7 = (if hotwaterheating h = ''Yes'' then 1 else 0) \<and> w ! 7 = v ! 7
    \<and> v ! 8 = (if airconditioning h = ''Yes'' then 1 else 0) \<and> w ! 8 = v ! 8
    \<and> v ! 9 = parking h \<and> w ! 9 = parking h
    \<and> v ! 10 = (if prefarea h = ''Yes'' then 1 else 0) \<and> w ! 10 = v ! 10
    \<and> v ! 11 = (if furnishingstatus h = ''unfurnished'' then 0
                 else if furnishingstatus h = ''semi-furnished'' then 1 else 2)
    \<and> w ! 11 = v ! 11"
  by (simp add: app_input_features_valid [OF assms] test_input_features_valid [OF assms])

theorem encode_twelve_in_order_witness:
  "valid_inputs (default_inputs\<lparr>area := 1000\<rparr>)
   \<and> valid_inputs (default_inputs\<lparr>area := 20000\<rparr>)
   \<and> app_input_features (default_inputs\<lparr>area := 1000\<rparr>)
       = Inr [1000, 4, 3, 3, 1, 1, 1, 1, 1, 2, 1, 2]
   \<and> test_input_features (default_inputs\<lparr>area := 1000\<rparr>)
       = Inr [1000, 4, 3, 3, 1, 1, 1, 1, 1, 2, 1, 2]
   \<and> app_input_features (default_inputs\<lparr>area := 20000\<rparr>)
       = Inr [20000, 4, 3, 3, 1, 1, 1, 1, 1, 2, 1, 2]
   \<and> test_input_features (default_inputs\<lparr>area := 20000\<rparr>)
       = Inr [20000, 4, 3, 3, 1, 1, 1, 1, 1, 2, 1, 2]"
proof -
  from encode_twelve_in_order [OF valid_area_low]
  obtain v w where low:
    "app_input_features (default_inputs\<lparr>area := 1000\<rparr>) = Inr v"
    "test_input_features (default_inputs\<lparr>area := 1000\<rparr>) = Inr w"
    by blast
  from encode_twelve_in_order [OF valid_area_high]
  obtain v' w' where high:
    "app_input_features (default_inputs\<lparr>area := 20000\<rparr>) = Inr v'"
    "test_input_features (default_inputs\<lparr>area := 20000\<rparr>) = Inr w'"
    by blast
  have "v = [1000, 4, 3, 3, 1, 1, 1, 1, 1, 2, 1, 2]"
    using low(1) by (simp add: app_input_features_def furnishing_lookup_app default_inputs_def)
  moreover have "w = [1000, 4, 3, 3, 1, 1, 1, 1, 1, 2, 1, 2]"
    using low(2) by (simp add: test_input_features_def furnishing_lookup_test default_inputs_def)
  moreover have "v' = [20000, 4, 3, 3, 1, 1, 1, 1, 1, 2, 1, 2]"
    using high(1) by (simp add: app_input_features_def furnishing_lookup_app default_inputs_def)
  moreover have "w' = [20000, 4, 3, 3, 1, 1, 1, 1, 1, 2, 1, 2]"
    using high(2) by (simp add: test_input_features_def furnishing_lookup_test default_inputs_def)
  ultimately show ?thesis
    using low high valid_area_low valid_area_high by simp
qed

lemmas app_run_defs = app_main_def app_load_model_def app_load_model_body_def app_predict_def
lemmas test_run_defs = test_main_def test_load_model_def test_load_model_body_def test_predict_def

lemma app_default_encoding:
  "app_input_features default_inputs = Inr [7000, 4, 3, 3, 1, 1, 1, 1, 1, 2, 1, 2]"
  by (simp add: app_input_features_def furnishing_lookup_app default_inputs_def)

lemma test_default_encoding:
  "test_input_features default_inputs = Inr [7000, 4, 3, 3, 1, 1, 1, 1, 1, 2, 1, 2]"
  by (simp add: test_input_features_def furnishing_lookup_test default_inputs_def)

subsection \<open>One run of a page\<close>

text \<open>
  Claim C2.  The input area 7000, 4 bedrooms, 3 bathrooms, 3 stories, every yes/no field
  Yes, 2 parking spaces, furnished (the widgets' untouched state) is encoded by either page
  as \<open>[7000, 4, 3, 3, 1, 1, 1, 1, 1, 2, 1, 2]\<close>.  With a stub model whose \<^verbatim>\<open>predict\<close>
  returns the one value \<open>c\<close> whatever its argument, a run with the button pressed calls
  the stub with that one-row batch and shows \<open>c\<close> as currency: a dollar sign, a minus sign
  when \<open>c\<close> is negative, the integer part in well-formed groups of three digits joined by
  commas, a point and two decimals, the amount written being \<open>c\<close> rounded to the nearest
  hundredth (on a tie, to the even one).  For the stub values 4500000, 1234567.89, 0.125
  and -1234.5 the texts shown are \<^verbatim>\<open>$4,500,000.00\<close>, \<^verbatim>\<open>$1,234,567.89\<close>, \<^verbatim>\<open>$0.12\<close> and
  \<^verbatim>\<open>$-1,234.50\<close>.
\<close>

theorem default_inputs_pipeline:
  "app_input_features default_inputs = Inr [7000, 4, 3, 3, 1, 1, 1, 1, 1, 2, 1, 2]
   \<and> test_input_features default_inputs = Inr [7000, 4, 3, 3, 1, 1, 1, 1, 1, 2, 1, 2]
   \<and> (\<exists>groups d1 d2.
        app_main None (Inr (\<lambda>rows. Inr [c])) default_inputs True =
          \<lparr>new_cache = Some (Some (\<lambda>rows. Inr [c]), []),
           shown = [ModelPredict [[7000, 4, 3, 3, 1, 1, 1, 1, 1, 2, 1, 2]],
                    PredictionBox (''$'' @ amount_text (c < 0) groups d1 d2)],
           uncaught = None\<rparr>
        \<and> test_main None (Inr (\<lambda>rows. Inr [c])) default_inputs True =
          \<lparr>new_cache = Some (Some (\<lambda>rows. Inr [c]), []),
           shown = [ModelPredict [[7000, 4, 3, 3, 1, 1, 1, 1, 1, 2, 1, 2]],
                    PredictionBox (''$'' @ amount_text (c < 0) groups d1 d2)],
           uncaught = None\<rparr>
        \<and> well_grouped groups \<and> is_digit d1 \<and> is_digit d2
        \<and> \<bar>of_nat (amount_cents groups d1 d2) - \<bar>c\<bar> * 100\<bar> \<le> 1 / 2
        \<and> (even (amount_cents groups d1 d2)
             \<or> \<bar>of_nat (amount_cents groups d1 d2) - \<bar>c\<bar> * 100\<bar> < 1 / 2))
   \<and> shown (app_main None (Inr (\<lambda>rows. Inr [4500000])) default_inputs True) =
       [ModelPredict [[7000, 4, 3, 3, 1, 1, 1, 1, 1, 2, 1, 2]], PredictionBox ''$4,500,000.00'']
   \<and> shown (test_main None (Inr (\<lambda>rows. Inr [4500000])) default_inputs True) =
       [ModelPredict [[7000, 4, 3, 3, 1, 1, 1, 1, 1, 2, 1, 2]], PredictionBox ''$4,500,000.00'']
   \<and> shown (app_main None (Inr (\<lambda>rows. Inr [123456789 / 100])) default_inputs True) =
       [ModelPredict [[7000, 4, 3, 3, 1, 1, 1, 1, 1, 2, 1, 2]], PredictionBox ''$1,234,567.89'']
   \<and> shown (test_main None (Inr (\<lambda>rows. Inr [1 / 8])) default_inputs True) =
       [ModelPredict [[7000, 4, 3, 3, 1, 1, 1, 1, 1, 2, 1, 2]], PredictionBox ''$0.12'']
   \<and> shown (app_main None (Inr (\<lambda>rows. Inr [- 2469 / 2])) default_inputs True) =
       [ModelPredict [[7000, 4, 3, 3, 1, 1, 1, 1, 1, 2, 1, 2]], PredictionBox ''$-1,234.50'']"
proof -
  have a: "app_main None (Inr (\<lambda>rows. Inr [x])) default_inputs True =
      \<lparr>new_cache = Some (Some (\<lambda>rows. Inr [x]), []),
       shown = [ModelPredict [[7000, 4, 3, 3, 1, 1, 1, 1, 1, 2, 1, 2]],
                PredictionBox (''$'' @ format_comma_2f x)],
       uncaught = None\<rparr>" for x
    by (simp add: app_run_defs app_default_encoding)
  have t: "test_main None (Inr (\<lambda>rows. Inr [x])) default_inputs True =
      \<lparr>new_cache = Some (Some (\<lambda>rows. Inr [x]), []),
       shown = [ModelPredict [[7000, 4, 3, 3, 1, 1, 1, 1, 1, 2, 1, 2]],
                PredictionBox (''$'' @ format_comma_2f x)],
       uncaught = None\<rparr>" for x
    by (simp add: test_run_defs test_default_encoding)
  from format_comma_2f_reads_back [of c] obtain groups d1 d2 where r:
    "format_comma_2f c = amount_text (c < 0) groups d1 d2
     \<and> well_grouped groups \<and> is_digit d1 \<and> is_digit d2
     \<and> \<bar>of_nat (amount_cents groups d1 d2) - \<bar>c\<bar> * 100\<bar> \<le> 1 / 2
     \<and> (even (amount_cents groups d1 d2)
          \<or> \<bar>of_nat (amount_cents groups d1 d2) - \<bar>c\<bar> * 100\<bar> < 1 / 2)"
    by blast
  then have shape: "format_comma_2f c = amount_text (c < 0) groups d1 d2"
    by (rule conjunct1)
  have general: "\<exists>groups d1 d2.
        app_main None (Inr (\<lambda>rows. Inr [c])) default_inputs True =
          \<lparr>new_cache = Some (Some (\<lambda>rows. Inr [c]), []),
           shown = [ModelPredict [[7000, 4, 3, 3, 1, 1, 1, 1, 1, 2, 1, 2]],
                    PredictionBox (''$'' @ amount_text (c < 0) groups d1 d2)],
           uncaught = None\<rparr>
        \<and> test_main None (Inr (\<lambda>rows. Inr [c])) default_inputs True =
          \<lparr>new_cache = Some (Some (\<lambda>rows. Inr [c]), []),
           shown = [ModelPredict [[7000, 4, 3, 3, 1, 1, 1, 1, 1, 2, 1, 2]],
                    PredictionBox (''$'' @ amount_text (c < 0) groups d1 d2)],
           uncaught = None\<rparr>
        \<and> well_grouped groups \<and> is_digit d1 \<and> is_digit d2
        \<and> \<bar>of_nat (amount_cents groups d1 d2) - \<bar>c\<bar> * 100\<bar> \<le> 1 / 2
        \<and> (even (amount_cents groups d1 d2)
             \<or> \<bar>of_nat (amount_cents groups d1 d2) - \<bar>c\<bar> * 100\<bar> < 1 / 2)"
  proof (rule exI [of _ groups], rule exI [of _ d1], rule exI [of _ d2], intro conjI)
    show "app_main None (Inr (\<lambda>rows. Inr [c])) default_inputs True =
          \<lparr>new_cache = Some (Some (\<lambda>rows. Inr [c]), []),
           shown = [ModelPredict [[7000, 4, 3, 3, 1, 1, 1, 1, 1, 2, 1, 2]],
                    PredictionBox (''$'' @ amount_text (c < 0) groups d1 d2)],
           uncaught = None\<rparr>"
      unfolding a shape by (rule refl)
    show "test_main None (Inr (\<lambda>rows. Inr [c])) default_inputs True =
          \<lparr>new_cache = Some (Some (\<lambda>rows. Inr [c]), []),
           shown = [ModelPredict [[7000, 4, 3, 3, 1, 1, 1, 1, 1, 2, 1, 2]],
                    PredictionBox (''$'' @ amount_text (c < 0) groups d1 d2)],
           uncaught = None\<rparr>"
      unfolding t shape by (rule refl)
  qed (use r in simp_all)
  have examples:
    "shown (app_main None (Inr (\<lambda>rows. Inr [4500000])) default_inputs True) =
       [ModelPredict [[7000, 4, 3, 3, 1, 1, 1, 1, 1, 2, 1, 2]], PredictionBox ''$4,500,000.00'']"
    "shown (test_main None (Inr (\<lambda>rows. Inr [4500000])) default_inputs True) =
       [ModelPredict [[7000, 4, 3, 3, 1, 1, 1, 1, 1, 2, 1, 2]], PredictionBox ''$4,500,000.00'']"
    "shown (app_main None (Inr (\<lambda>rows. Inr [123456789 / 100])) default_inputs True) =
       [ModelPredict [[7000, 4, 3, 3, 1, 1, 1, 1, 1, 2, 1, 2]], PredictionBox ''$1,234,567.89'']"
    "shown (test_main None (Inr (\<lambda>rows. Inr [1 / 8])) default_inputs True) =
       [ModelPredict [[7000, 4, 3, 3, 1, 1, 1, 1, 1, 2, 1, 2]], PredictionBox ''$0.12'']"
    "shown (app_main None (Inr (\<lambda>rows. Inr [- 2469 / 2])) default_inputs True) =
       [ModelPredict [[7000, 4, 3, 3, 1, 1, 1, 1, 1, 2, 1, 2]], PredictionBox ''$-1,234.50'']"
    unfolding a t
    by (simp_all only: run_result.simps format_4500000 format_1234567_89 format_tie_down
        format_negative append.simps)
  show ?thesis
    by (intro conjI app_default_encoding test_default_encoding general examples)
qed

text \<open>
  Claim C9.  The two pages have the same core: on the same widget values their encodings
  are equal (the same vector, or the same exception), their cached loads and prediction
  blocks are equal, each hands the model the vector wrapped as the one-row batch \<open>[v]\<close>,
  and a run with the button pressed gives the same result in both.
\<close>

theorem app_and_test_same_core:
  "app_input_features h = test_input_features h
   \<and> app_load_model c joblib_load = test_load_model c joblib_load
   \<and> app_predict model v = test_predict model v
   \<and> hd (app_predict (Some m) v) = ModelPredict [v]
   \<and> hd (test_predict (Some m) v) = ModelPredict [v]
   \<and> app_main c joblib_load h True = test_main c joblib_load h True"
proof -
  have enc: "app_input_features h = test_input_features h"
    by (simp add: app_input_features_def test_input_features_def
        furnishing_lookup_app furnishing_lookup_test)
  have body: "app_load_model_body joblib_load = test_load_model_body joblib_load"
    by (simp add: app_load_model_body_def test_load_model_body_def)
  have load: "app_load_model c joblib_load = test_load_model c joblib_load"
    unfolding app_load_model_def test_load_model_def body by (rule refl)
  have pred: "app_predict model v = test_predict model v" for model v
    by (simp add: app_predict_def test_predict_def)
  have main: "app_main c joblib_load h True = test_main c joblib_load h True"
    by (simp add: app_main_def test_main_def enc load pred split: sum.splits prod.splits)
  show ?thesis
    using enc load pred main by (simp add: test_predict_def)
qed

text \<open>
  Claim C10.  A furnishing status that is none of the three keys makes the dictionary
  lookup raise \<^verbatim>\<open>KeyError\<close>.  The lookup stands before the \<^verbatim>\<open>try\<close>, so the exception leaves
  \<^verbatim>\<open>main()\<close> uncaught: the run shows no prediction error message (only what the load
  showed) and the model is not called.  In \<^verbatim>\<open>app.py\<close> this happens in every run, in
  \<^verbatim>\<open>test.py\<close> in a run with the button pressed.
\<close>

theorem unknown_furnishing_escapes_handler:
  assumes "furnishingstatus h \<notin> {''unfurnished'', ''semi-furnished'', ''furnished''}"
  shows "app_input_features h = Inl (KeyError (furnishingstatus h))
    \<and> test_input_features h = Inl (KeyError (furnishingstatus h))
    \<and> app_main None (Inr m) h button =
        \<lparr>new_cache = Some (Some m, []), shown = [],
         uncaught = Some (KeyError (furnishingstatus h))\<rparr>
    \<and> test_main None (Inr m) h True =
        \<lparr>new_cache = Some (Some m, []), shown = [],
         uncaught = Some (KeyError (furnishingstatus h))\<rparr>
    \<and> app_main None (Inl (FileNotFoundError s)) h button =
        \<lparr>new_cache = Some (None, [StError ModelFileNotFound]),
         shown = [StError ModelFileNotFound],
         uncaught = Some (KeyError (furnishingstatus h))\<rparr>
    \<and> test_main None (Inl (FileNotFoundError s)) h True =
        \<lparr>new_cache = Some (None, [StError ModelFileNotFound]),
         shown = [StError ModelFileNotFound],
         uncaught = Some (KeyError (furnishingstatus h))\<rparr>"
proof -
  have a: "app_input_features h = Inl (KeyError (furnishingstatus h))"
    using assms by (simp add: app_input_features_def furnishing_lookup_app)
  have t: "test_input_features h = Inl (KeyError (furnishingstatus h))"
    using assms by (simp add: test_input_features_def furnishing_lookup_test)
  show ?thesis
    by (simp add: a t app_run_defs test_run_defs)
qed

theorem unknown_furnishing_escapes_handler_witness:
  "furnishingstatus (default_inputs\<lparr>furnishingstatus := ''luxury''\<rparr>)
     \<notin> {''unfurnished'', ''semi-furnished'', ''furnished''}
   \<and> uncaught (app_main None (Inr (\<lambda>rows. Inr [4500000]))
        (default_inputs\<lparr>furnishingstatus := ''luxury''\<rparr>) False) = Some (KeyError ''luxury'')
   \<and> shown (app_main None (Inr (\<lambda>rows. Inr [4500000]))
        (default_inputs\<lparr>furnishingstatus := ''luxury''\<rparr>) False) = []
   \<and> uncaught (test_main None (Inr (\<lambda>rows. Inr [4500000]))
        (default_inputs\<lparr>furnishingstatus := ''luxury''\<rparr>) True) = Some (KeyError ''luxury'')
   \<and> shown (test_main None (Inr (\<lambda>rows. Inr [4500000]))
        (default_inputs\<lparr>furnishingstatus := ''luxury''\<rparr>) True) = []"
proof -
  have h: "furnishingstatus (default_inputs\<lparr>furnishingstatus := ''luxury''\<rparr>)
     \<notin> {''unfurnished'', ''semi-furnished'', ''furnished''}"
    by simp
  show ?thesis
    using h unknown_furnishing_escapes_handler [OF h, of "\<lambda>rows. Inr [4500000]" False]
    by simp
qed

lemma valid_mixed_inputs:
  "valid_inputs (default_inputs\<lparr>mainroad := ''No'', furnishingstatus := ''semi-furnished''\<rparr>)"
  by (simp add: valid_inputs_def default_inputs_def yes_no_def)

text \<open>
  Claim C3.  For every input within the widgets' domains, each of the six yes/no fields
  (positions 4, 5, 6, 7, 8 and 10 of the vector) is encoded as 0 or 1, and as 1 exactly
  when the field is Yes; the furnishing status (position 11) is encoded as 0, 1 or 2:
  0 for unfurnished, 1 for semi-furnished, 2 for furnished.  Both pages give this vector.
\<close>

theorem booleans_and_furnishing_codes:
  assumes "valid_inputs h"
  shows "\<exists>v. app_input_features h = Inr v \<and> test_input_features h = Inr v
    \<and> v ! 4 \<in> {0, 1} \<and> (v ! 4 = 1 \<longleftrightarrow> mainroad h = ''Yes'')
    \<and> v ! 5 \<in> {0, 1} \<and> (v ! 5 = 1 \<longleftrightarrow> guestroom h = ''Yes'')
    \<and> v ! 6 \<in> {0, 1} \<and> (v ! 6 = 1 \<longleftrightarrow> basement h = ''Yes'')
    \<and> v ! 7 \<in> {0, 1} \<and> (v ! 7 = 1 \<longleftrightarrow> hotwaterheating h = ''Yes'')
    \<and> v ! 8 \<in> {0, 1} \<and> (v ! 8 = 1 \<longleftrightarrow> airconditioning h = ''Yes'')
    \<and> v ! 10 \<in> {0, 1} \<and> (v ! 10 = 1 \<longleftrightarrow> prefarea h = ''Yes'')
    \<and> v ! 11 \<in> {0, 1, 2}
    \<and> (v ! 11 = 0 \<longleftrightarrow> furnishingstatus h = ''unfurnished'')
    \<and> (v ! 11 = 1 \<longleftrightarrow> furnishingstatus h = ''semi-furnished'')
    \<and> (v ! 11 = 2 \<longleftrightarrow> furnishingstatus h = ''furnished'')"
proof -
  from assms have f: "furnishingstatus h = ''unfurnished'' \<or> furnishingstatus h = ''semi-furnished''
      \<or> furnishingstatus h = ''furnished''"
    by (simp add: valid_inputs_def)
  let ?v = "[area h, bedrooms h, bathrooms h, stories h,
          if mainroad h = ''Yes'' then 1 else 0,
          if guestroom h = ''Yes'' then 1 else 0,
          if basement h = ''Yes'' then 1 else 0,
          if hotwaterheating h = ''Yes'' then 1 else 0,
          if airconditioning h = ''Yes'' then 1 else 0,
          parking h,
          if prefarea h = ''Yes'' then 1 else 0,
          if furnishingstatus h = ''unfurnished'' then 0
          else if furnishingstatus h = ''semi-furnished'' then 1 else 2]"
  show ?thesis
  proof (intro exI [of _ ?v] conjI)
    show "app_input_features h = Inr ?v"
      by (rule app_input_features_valid [OF assms])
    show "test_input_features h = Inr ?v"
      by (rule test_input_features_valid [OF assms])
  qed (use f in auto)
qed

theorem booleans_and_furnishing_codes_witness:
  "valid_inputs (default_inputs\<lparr>mainroad := ''No'', furnishingstatus := ''semi-furnished''\<rparr>)
   \<and> (\<exists>v. app_input_features
            (default_inputs\<lparr>mainroad := ''No'', furnishingstatus := ''semi-furnished''\<rparr>) = Inr v
        \<and> test_input_features
            (default_inputs\<lparr>mainroad := ''No'', furnishingstatus := ''semi-furnished''\<rparr>) = Inr v
        \<and> v ! 4 = 0 \<and> v ! 5 = 1 \<and> v ! 11 = 1)"
  using valid_mixed_inputs booleans_and_furnishing_codes [OF valid_mixed_inputs]
  by (simp add: app_input_features_def test_input_features_def furnishing_lookup_app
      furnishing_lookup_test default_inputs_def)

subsection \<open>Runs, the cache and sessions\<close>

lemma test_input_features_eq: "test_input_features h = app_input_features h"
  by (simp add: app_input_features_def test_input_features_def
      furnishing_lookup_app furnishing_lookup_test)

lemma test_load_model_eq: "test_load_model c joblib_load = app_load_model c joblib_load"
proof -
  have "test_load_model_body joblib_load = app_load_model_body joblib_load"
    by (simp add: app_load_model_body_def test_load_model_body_def)
  then show ?thesis
    unfolding app_load_model_def test_load_model_def by (simp only:)
qed

lemma test_predict_eq: "test_predict model v = app_predict model v"
  by (simp add: app_predict_def test_predict_def)

lemma app_load_model_cached:
  "app_load_model (Some (model, msgs)) joblib_load = Inr (model, msgs, Some (model, msgs))"
  by (simp add: app_load_model_def)

lemma app_load_model_loaded:
  "app_load_model None (Inr m) = Inr (Some m, [], Some (Some m, []))"
  by (simp add: app_load_model_def app_load_model_body_def)

lemma app_load_model_missing:
  "is_file_not_found e \<Longrightarrow>
   app_load_model None (Inl e) =
     Inr (None, [StError ModelFileNotFound], Some (None, [StError ModelFileNotFound]))"
  by (simp add: app_load_model_def app_load_model_body_def)

lemma app_load_model_raises:
  "\<not> is_file_not_found e \<Longrightarrow> app_load_model None (Inl e) = Inl e"
  by (simp add: app_load_model_def app_load_model_body_def)

text \<open>
  The three things a load can do, by the cache it finds: replay a cached outcome, raise
  (only from an empty cache, and only an exception that is not the missing file), or
  store and return a fresh outcome.
\<close>

lemma app_load_model_outcomes:
  assumes "cache_reachable c"
  obtains
    (raised) e where "c = None" "joblib_load = Inl e" "\<not> is_file_not_found e"
      "app_load_model c joblib_load = Inl e"
  | (no_model) "app_load_model c joblib_load =
        Inr (None, [StError ModelFileNotFound], Some (None, [StError ModelFileNotFound]))"
      "c = None \<and> missing_file joblib_load \<or> c = Some (None, [StError ModelFileNotFound])"
  | (model) m where "app_load_model c joblib_load = Inr (Some m, [], Some (Some m, []))"
      "c = None \<and> joblib_load = Inr m \<or> c = Some (Some m, [])"
proof (cases c)
  case None
  show ?thesis
  proof (cases joblib_load)
    case (Inl e)
    show ?thesis
    proof (cases "is_file_not_found e")
      case True
      with None Inl show ?thesis
        by (intro no_model) (simp_all add: app_load_model_missing)
    next
      case False
      with None Inl show ?thesis
        by (intro raised [of e]) (simp_all add: app_load_model_raises)
    qed
  next
    case (Inr m)
    with None show ?thesis
      by (intro model [of m]) (simp_all add: app_load_model_loaded)
  qed
next
  case (Some x)
  obtain mo msgs where x: "x = (mo, msgs)" by (cases x)
  show ?thesis
  proof (cases mo)
    case None
    with assms Some x have "msgs = [StError ModelFileNotFound]"
      by (simp add: cache_reachable_def)
    with None Some x show ?thesis
      by (intro no_model) (simp_all add: app_load_model_cached)
  next
    case (Some m)
    with assms \<open>c = Some x\<close> x have "msgs = []"
      by (simp add: cache_reachable_def)
    with Some \<open>c = Some x\<close> x show ?thesis
      by (intro model [of m]) (simp_all add: app_load_model_cached)
  qed
qed

lemma app_main_raised:
  "app_load_model c joblib_load = Inl e \<Longrightarrow>
   app_main c joblib_load h button = \<lparr>new_cache = c, shown = [], uncaught = Some e\<rparr>"
  by (simp add: app_main_def)

lemma test_main_raised:
  "app_load_model c joblib_load = Inl e \<Longrightarrow>
   test_main c joblib_load h button = \<lparr>new_cache = c, shown = [], uncaught = Some e\<rparr>"
  by (simp add: test_main_def test_load_model_eq)

lemma app_main_loaded:
  "app_load_model c joblib_load = Inr (model, msgs, c') \<Longrightarrow>
   app_main c joblib_load h button =
     (case app_input_features h of
        Inl e \<Rightarrow> \<lparr>new_cache = c', shown = msgs, uncaught = Some e\<rparr>
      | Inr v \<Rightarrow>
          \<lparr>new_cache = c', shown = msgs @ (if button then app_predict model v else []),
           uncaught = None\<rparr>)"
  by (simp add: app_main_def split: sum.splits)

lemma test_main_loaded:
  "app_load_model c joblib_load = Inr (model, msgs, c') \<Longrightarrow>
   test_main c joblib_load h button =
     (if button
      then (case app_input_features h of
              Inl e \<Rightarrow> \<lparr>new_cache = c', shown = msgs, uncaught = Some e\<rparr>
            | Inr v \<Rightarrow>
                \<lparr>new_cache = c', shown = msgs @ app_predict model v, uncaught = None\<rparr>)
      else \<lparr>new_cache = c', shown = msgs, uncaught = None\<rparr>)"
  by (simp add: test_main_def test_load_model_eq test_input_features_eq test_predict_eq
      split: sum.splits)


lemma app_predict_rows: "ModelPredict rows \<in> set (app_predict model v) \<Longrightarrow> rows = [v]"
  by (auto simp add: app_predict_def split: option.splits sum.splits list.splits)

text \<open>The run at position \<open>i\<close> of a session starts from a cache that an invariant holds of.\<close>

lemma session_length: "length (session main c ints) = length ints"
proof (induction ints arbitrary: c)
  case Nil
  show ?case by simp
next
  case (Cons x ints)
  obtain jl h b where x: "x = (jl, h, b)" by (cases x)
  show ?case by (simp add: x Let_def Cons.IH)
qed

lemma session_nth_invariant:
  assumes step: "\<And>c jl h b. I c \<Longrightarrow> I (new_cache (main c jl h b))"
  shows "I c \<Longrightarrow> i < length ints \<Longrightarrow>
    \<exists>c'. I c' \<and> session main c ints ! i = (case ints ! i of (jl, h, b) \<Rightarrow> main c' jl h b)"
proof (induction ints arbitrary: c i)
  case Nil
  then show ?case by simp
next
  case (Cons x ints)
  obtain jl h b where x: "x = (jl, h, b)" by (cases x)
  show ?case
  proof (cases i)
    case 0
    with Cons.prems(1) show ?thesis
      by (auto simp add: x Let_def)
  next
    case (Suc k)
    from Cons.prems(2) Suc have k: "k < length ints" by simp
    from step [OF Cons.prems(1)] have "I (new_cache (main c jl h b))" .
    from Cons.IH [OF this k] show ?thesis
      by (simp add: x Suc Let_def)
  qed
qed


lemma app_main_keeps_reachable:
  assumes "cache_reachable c"
  shows "cache_reachable (new_cache (app_main c joblib_load h button))"
  using assms
proof (cases rule: app_load_model_outcomes
    [of c joblib_load, consumes 1, case_names raised no_model model])
  case (raised e)
  with assms show ?thesis by (simp add: app_main_raised)
next
  case no_model
  then show ?thesis
    by (simp add: app_main_loaded cache_reachable_def split: sum.splits)
next
  case (model m)
  then show ?thesis
    by (simp add: app_main_loaded cache_reachable_def split: sum.splits)
qed

lemma test_main_keeps_reachable:
  assumes "cache_reachable c"
  shows "cache_reachable (new_cache (test_main c joblib_load h button))"
  using assms
proof (cases rule: app_load_model_outcomes
    [of c joblib_load, consumes 1, case_names raised no_model model])
  case (raised e)
  with assms show ?thesis by (simp add: test_main_raised)
next
  case no_model
  then show ?thesis
    by (simp add: test_main_loaded cache_reachable_def split: sum.splits)
next
  case (model m)
  then show ?thesis
    by (simp add: test_main_loaded cache_reachable_def split: sum.splits)
qed

lemma cache_reachable_None: "cache_reachable None"
  by (simp add: cache_reachable_def)

subsection \<open>Failures of the load and of the prediction\<close>









text \<open>
  Claim C6.  For every vector \<open>v\<close>: when the model's \<^verbatim>\<open>predict\<close> raises \<open>e\<close> on the batch
  \<open>[v]\<close>, the prediction block catches it and shows the message ``Error making
  prediction'' with \<open>e\<close>; the run ends without an uncaught exception and the loaded
  model stays cached, so the page keeps serving.  The witness is a model that expects
  thirteen features and is given the twelve of the default input.
\<close>

theorem inference_failure_is_caught:
  assumes "m [v] = Inl e"
  shows "app_predict (Some m) v = [ModelPredict [v], StError (ErrorMakingPrediction e)]
    \<and> test_predict (Some m) v = [ModelPredict [v], StError (ErrorMakingPrediction e)]
    \<and> (app_input_features h = Inr v \<longrightarrow>
         app_main None (Inr m) h True =
           \<lparr>new_cache = Some (Some m, []),
            shown = [ModelPredict [v], StError (ErrorMakingPrediction e)],
            uncaught = None\<rparr>)
    \<and> (test_input_features h = Inr v \<longrightarrow>
         test_main None (Inr m) h True =
           \<lparr>new_cache = Some (Some m, []),
            shown = [ModelPredict [v], StError (ErrorMakingPrediction e)],
            uncaught = None\<rparr>)"
  using assms by (simp add: app_run_defs test_run_defs)

theorem inference_failure_is_caught_witness:
  "expects_13_features [[7000, 4, 3, 3, 1, 1, 1, 1, 1, 2, 1, 2]]
     = Inl (ValueError ''X has 12 features, but the model is expecting 13'')
   \<and> app_main None (Inr expects_13_features) default_inputs True =
       \<lparr>new_cache = Some (Some expects_13_features, []),
        shown = [ModelPredict [[7000, 4, 3, 3, 1, 1, 1, 1, 1, 2, 1, 2]],
                 StError (ErrorMakingPrediction
                   (ValueError ''X has 12 features, but the model is expecting 13''))],
        uncaught = None\<rparr>
   \<and> test_main None (Inr expects_13_features) default_inputs True =
       \<lparr>new_cache = Some (Some expects_13_features, []),
        shown = [ModelPredict [[7000, 4, 3, 3, 1, 1, 1, 1, 1, 2, 1, 2]],
                 StError (ErrorMakingPrediction
                   (ValueError ''X has 12 features, but the model is expecting 13''))],
        uncaught = None\<rparr>"
proof -
  have f: "expects_13_features [[7000, 4, 3, 3, 1, 1, 1, 1, 1, 2, 1, 2]]
      = Inl (ValueError ''X has 12 features, but the model is expecting 13'')"
    by (simp add: expects_13_features_def)
  show ?thesis
    using f app_default_encoding test_default_encoding
      inference_failure_is_caught [of expects_13_features
        "[7000, 4, 3, 3, 1, 1, 1, 1, 1, 2, 1, 2]"
        "ValueError ''X has 12 features, but the model is expecting 13''" default_inputs]
    by simp
qed

subsection \<open>After a failed load\<close>








subsection \<open>What a successful prediction shows\<close>



subsection \<open>The encoding depends on the inputs only\<close>

lemma app_main_predict_rows:
  assumes "cache_reachable c" and "app_input_features h = Inr v"
    and "ModelPredict rows \<in> set (shown (app_main c joblib_load h button))"
  shows "rows = [v]"
  using assms(1)
proof (cases rule: app_load_model_outcomes
    [of c joblib_load, consumes 1, case_names raised no_model model])
  case (raised e)
  with assms(3) show ?thesis by (simp add: app_main_raised)
next
  case no_model
  with assms(2,3) show ?thesis
    by (auto simp add: app_main_loaded dest: app_predict_rows split: if_splits)
next
  case (model m)
  with assms(2,3) show ?thesis
    by (auto simp add: app_main_loaded dest: app_predict_rows split: if_splits)
qed

lemma test_main_predict_rows:
  assumes "cache_reachable c" and "app_input_features h = Inr v"
    and "ModelPredict rows \<in> set (shown (test_main c joblib_load h button))"
  shows "rows = [v]"
  using assms(1)
proof (cases rule: app_load_model_outcomes
    [of c joblib_load, consumes 1, case_names raised no_model model])
  case (raised e)
  with assms(3) show ?thesis by (simp add: test_main_raised)
next
  case no_model
  with assms(2,3) show ?thesis
    by (auto simp add: test_main_loaded dest: app_predict_rows split: if_splits)
next
  case (model m)
  with assms(2,3) show ?thesis
    by (auto simp add: test_main_loaded dest: app_predict_rows split: if_splits)
qed

text \<open>
  Claim C7.  For inputs \<open>h\<close> within the widgets' domains there is one vector \<open>v\<close> of twelve
  numbers that both pages encode \<open>h\<close> to, and:
  \<^item> in a process, whatever happened before and whatever the loads did, a run whose
    inputs are \<open>h\<close> calls the model with the one-row batch \<open>[v]\<close> and with nothing else:
    encoding the same inputs again, any number of times, gives the same vector;
  \<^item> the encoding has no effect of its own: from any cache, a run with these inputs leaves
    the cache the load left and shows what the load showed, followed on a press of the
    button by what the prediction block shows for \<open>v\<close>; the encoding adds nothing and, on
    such inputs, raises nothing.
\<close>

theorem encoding_deterministic_without_effects:
  assumes "valid_inputs h" and "i < length ints" and "fst (snd (ints ! i)) = h"
  shows "\<exists>v. length v = 12 \<and> app_input_features h = Inr v \<and> test_input_features h = Inr v
    \<and> (ModelPredict rows \<in> set (shown (session app_main None ints ! i)) \<longrightarrow> rows = [v])
    \<and> (ModelPredict rows \<in> set (shown (session test_main None ints ! i)) \<longrightarrow> rows = [v])
    \<and> app_main c joblib_load h button =
        (case app_load_model c joblib_load of
           Inl e \<Rightarrow> \<lparr>new_cache = c, shown = [], uncaught = Some e\<rparr>
         | Inr (model, msgs, c') \<Rightarrow>
             \<lparr>new_cache = c',
              shown = msgs @ (if button then app_predict model v else []),
              uncaught = None\<rparr>)
    \<and> test_main c joblib_load h button =
        (case test_load_model c joblib_load of
           Inl e \<Rightarrow> \<lparr>new_cache = c, shown = [], uncaught = Some e\<rparr>
         | Inr (model, msgs, c') \<Rightarrow>
             \<lparr>new_cache = c',
              shown = msgs @ (if button then test_predict model v else []),
              uncaught = None\<rparr>)"
proof -
  let ?v = "[area h, bedrooms h, bathrooms h, stories h,
          if mainroad h = ''Yes'' then 1 else 0,
          if guestroom h = ''Yes'' then 1 else 0,
          if basement h = ''Yes'' then 1 else 0,
          if hotwaterheating h = ''Yes'' then 1 else 0,
          if airconditioning h = ''Yes'' then 1 else 0,
          parking h,
          if prefarea h = ''Yes'' then 1 else 0,
          if furnishingstatus h = ''unfurnished'' then 0
          else if furnishingstatus h = ''semi-furnished'' then 1 else 2]"
  have a: "app_input_features h = Inr ?v"
    by (rule app_input_features_valid [OF assms(1)])
  have t: "test_input_features h = Inr ?v"
    by (rule test_input_features_valid [OF assms(1)])
  obtain jl b where at_i: "ints ! i = (jl, h, b)"
    using assms(3) by (cases "ints ! i") simp
  from session_nth_invariant [of cache_reachable app_main, OF app_main_keeps_reachable
      cache_reachable_None assms(2)]
  obtain ca where ca: "cache_reachable ca"
    and run_a: "session app_main None ints ! i = app_main ca jl h b"
    by (auto simp add: at_i)
  from session_nth_invariant [of cache_reachable test_main, OF test_main_keeps_reachable
      cache_reachable_None assms(2)]
  obtain ct where ct: "cache_reachable ct"
    and run_t: "session test_main None ints ! i = test_main ct jl h b"
    by (auto simp add: at_i)
  have rows_a: "ModelPredict rows \<in> set (shown (session app_main None ints ! i)) \<longrightarrow> rows = [?v]"
    unfolding run_a using app_main_predict_rows [OF ca a] by blast
  have rows_t: "ModelPredict rows \<in> set (shown (session test_main None ints ! i)) \<longrightarrow> rows = [?v]"
    unfolding run_t using test_main_predict_rows [OF ct a] by blast
  have main_a: "app_main c joblib_load h button =
        (case app_load_model c joblib_load of
           Inl e \<Rightarrow> \<lparr>new_cache = c, shown = [], uncaught = Some e\<rparr>
         | Inr (model, msgs, c') \<Rightarrow>
             \<lparr>new_cache = c',
              shown = msgs @ (if button then app_predict model ?v else []),
              uncaught = None\<rparr>)"
    by (simp add: app_main_def a split: sum.splits)
  have main_t: "test_main c joblib_load h button =
        (case test_load_model c joblib_load of
           Inl e \<Rightarrow> \<lparr>new_cache = c, shown = [], uncaught = Some e\<rparr>
         | Inr (model, msgs, c') \<Rightarrow>
             \<lparr>new_cache = c',
              shown = msgs @ (if button then test_predict model ?v else []),
              uncaught = None\<rparr>)"
    by (simp add: test_main_def t split: sum.splits)
  have len: "length ?v = 12" by simp
  show ?thesis
    by (rule exI [of _ ?v], intro conjI) (fact len a t rows_a rows_t main_a main_t)+
qed

theorem encoding_deterministic_without_effects_witness:
  "valid_inputs default_inputs
   \<and> Suc 0 < length [(Inr (stub_model 4500000), default_inputs, True),
                     (Inl (FileNotFoundError ''Housing.pkl''), default_inputs, True)]
   \<and> fst (snd ([(Inr (stub_model 4500000), default_inputs, True),
                 (Inl (FileNotFoundError ''Housing.pkl''), default_inputs, True)] ! Suc 0))
       = default_inputs
   \<and> app_input_features default_inputs = Inr [7000, 4, 3, 3, 1, 1, 1, 1, 1, 2, 1, 2]
   \<and> map shown (session app_main None
        [(Inr (stub_model 4500000), default_inputs, True),
         (Inl (FileNotFoundError ''Housing.pkl''), default_inputs, True)]) =
       [[ModelPredict [[7000, 4, 3, 3, 1, 1, 1, 1, 1, 2, 1, 2]], PredictionBox ''$4,500,000.00''],
        [ModelPredict [[7000, 4, 3, 3, 1, 1, 1, 1, 1, 2, 1, 2]], PredictionBox ''$4,500,000.00'']]
   \<and> (\<exists>v. length v = 12 \<and> test_input_features default_inputs = Inr v
        \<and> (ModelPredict [[7000, 4, 3, 3, 1, 1, 1, 1, 1, 2, 1, 2]]
             \<in> set (shown (session test_main None
                  [(Inr (stub_model 4500000), default_inputs, True),
                   (Inl (FileNotFoundError ''Housing.pkl''), default_inputs, True)] ! Suc 0))
           \<longrightarrow> [[7000, 4, 3, 3, 1, 1, 1, 1, 1, 2, 1, 2]] = [v]))"
proof -
  let ?ints = "[(Inr (stub_model 4500000), default_inputs, True),
                (Inl (FileNotFoundError ''Housing.pkl''), default_inputs, True)]"
  have i: "Suc 0 < length ?ints" by simp
  have at_i: "fst (snd (?ints ! Suc 0)) = default_inputs" by simp
  from encoding_deterministic_without_effects [OF valid_default_inputs i at_i,
      of "[[7000, 4, 3, 3, 1, 1, 1, 1, 1, 2, 1, 2]]" None "Inr (stub_model 4500000)" True]
  obtain v where v: "length v = 12" "test_input_features default_inputs = Inr v"
    "ModelPredict [[7000, 4, 3, 3, 1, 1, 1, 1, 1, 2, 1, 2]]
       \<in> set (shown (session test_main None ?ints ! Suc 0))
     \<longrightarrow> [[7000, 4, 3, 3, 1, 1, 1, 1, 1, 2, 1, 2]] = [v]"
    by blast
  then have general: "\<exists>v. length v = 12 \<and> test_input_features default_inputs = Inr v
        \<and> (ModelPredict [[7000, 4, 3, 3, 1, 1, 1, 1, 1, 2, 1, 2]]
             \<in> set (shown (session test_main None ?ints ! Suc 0))
           \<longrightarrow> [[7000, 4, 3, 3, 1, 1, 1, 1, 1, 2, 1, 2]] = [v])"
    by blast
  have runs: "map shown (session app_main None ?ints) =
       [[ModelPredict [[7000, 4, 3, 3, 1, 1, 1, 1, 1, 2, 1, 2]], PredictionBox ''$4,500,000.00''],
        [ModelPredict [[7000, 4, 3, 3, 1, 1, 1, 1, 1, 2, 1, 2]], PredictionBox ''$4,500,000.00'']]"
    by (simp add: app_run_defs Let_def stub_model_def app_default_encoding format_4500000)
  show ?thesis
    using valid_default_inputs i at_i app_default_encoding runs general by (intro conjI)
qed


end
